theory Spec2Isabelle
  imports Main "HOL-Library.Monad_Syntax" "HOL-Library.Sublist"
begin

section \<open>The witness dump utilities of smt\_util.hpp\<close>

subsection \<open>The data the utilities read\<close>

text \<open>
  \<open>smt_circuit::Circuit<FF>\<close> is declared in circuit.hpp, which is not among the
  sources. The dump utilities read four things of it: \<open>get_num_vars()\<close>, the vector
  \<open>real_variable_index\<close> (of \<open>uint32_t\<close>), the vector \<open>symbolic_vars\<close> and
  \<open>operator[]\<close> on a variable name. They are the fields of the record; the type
  \<open>'t\<close> stands for the symbolic term (\<open>cvc5::Term\<close>). The tests build a
  \<open>std::vector\<close> from \<open>symbolic_vars\<close> and iterate over its terms
  (circuit.test.cpp, lines 128 to 131), so it is a sequence of terms. The indices are
  natural numbers: no arithmetic is done on them but the increment of the loop
  counter. \<open>get_num_real_vars()\<close> only sizes a \<open>reserve\<close>, which changes no
  result. \<open>operator[]\<close> on a name is taken as a total function: what it does with
  a name that the circuit does not know is decided in circuit.hpp.
\<close>

record 't Circuit =
  num_vars :: nat
  real_variable_index :: "nat list"
  symbolic_vars :: "'t list"
  named_var :: "string \<Rightarrow> 't"

text \<open>
  \<open>smt_solver::Solver\<close> is not among the sources either. The utilities call its two
  overloads of \<open>model\<close>: on a vector of terms and on an unordered map from names to
  terms. Both return an unordered map from strings to strings. The functions of this
  file that take \<open>toString\<close> take \<open>cvc5::Term::toString\<close>, the printed name of a
  term, as a parameter.
\<close>

record 't Solver =
  model_terms :: "'t list \<Rightarrow> string \<rightharpoonup> string"
  model_named :: "(string \<rightharpoonup> 't) \<Rightarrow> string \<rightharpoonup> string"

text \<open>
  What a call leaves behind: the file opened with \<open>std::ios::trunc\<close> under the name
  \<open>fname\<close>, holding what was streamed into it, and the lines printed by \<open>info\<close>
  (one entry per call, the concatenation of its arguments). The stream is not
  tested after \<open>open\<close>: the contents are those of a file that could be opened.
\<close>

record dump =
  path :: string
  contents :: string
  info_log :: "string list"

subsection \<open>Library operations\<close>

text \<open>\<open>std::endl\<close> on a stream opened in binary mode: the byte 0x0A.\<close>

definition endl :: string where
  "endl = [CHR 0x0A]"

text \<open>
  \<open>std::vector::operator[]\<close>: an index out of range is undefined behaviour, which
  the model reports as \<open>None\<close>.
\<close>

definition vec_at :: "'a list \<Rightarrow> nat \<Rightarrow> 'a option" where
  "vec_at xs i = (if i < length xs then Some (xs ! i) else None)"

text \<open>
  \<open>std::unordered_map<std::string, std::string>::operator[]\<close>: a missing key reads
  as the empty string.
\<close>

definition umap_index :: "(string \<rightharpoonup> string) \<Rightarrow> string \<Rightarrow> string" where
  "umap_index m k = (case m k of None \<Rightarrow> [] | Some v \<Rightarrow> v)"

text \<open>\<open>std::unordered_map::insert\<close>: a key that is present keeps its value.\<close>

definition umap_insert :: "('k \<rightharpoonup> 'v) \<Rightarrow> 'k \<Rightarrow> 'v \<Rightarrow> ('k \<rightharpoonup> 'v)" where
  "umap_insert m k v = (case m k of None \<Rightarrow> m(k \<mapsto> v) | Some _ \<Rightarrow> m)"

text \<open>\<open>operator<<\<close> on a \<open>uint32_t\<close>: the decimal digits, no padding.\<close>

fun uint_to_string :: "nat \<Rightarrow> string" where
  "uint_to_string n =
     (if n < 10 then [''0123456789'' ! n]
      else uint_to_string (n div 10) @ [''0123456789'' ! (n mod 10)])"

declare uint_to_string.simps [simp del]

subsection \<open>default\_model\<close>

text \<open>
  The first loop of \<open>default_model\<close> (lines 12 to 15): for each index it pushes the
  symbolic variable of the canonical index, for both circuits. The bound of the loop
  is \<open>c1.get_num_vars()\<close>; both circuits are indexed with the same \<open>i\<close>.
\<close>

primrec collect_terms ::
  "'t Circuit \<Rightarrow> 't Circuit \<Rightarrow> nat list \<Rightarrow> 't list \<times> 't list \<Rightarrow> ('t list \<times> 't list) option"
where
  "collect_terms c1 c2 [] acc = Some acc"
| "collect_terms c1 c2 (i # js) acc = do {
     r1 \<leftarrow> vec_at (real_variable_index c1) i;
     t1 \<leftarrow> vec_at (symbolic_vars c1) r1;
     r2 \<leftarrow> vec_at (real_variable_index c2) i;
     t2 \<leftarrow> vec_at (symbolic_vars c2) r2;
     collect_terms c1 c2 js (fst acc @ [t1], snd acc @ [t2])
   }"

text \<open>
  The body of the second loop (lines 24 to 33): the operands streamed into the file
  for index \<open>i\<close>, in order. The second branch concatenates \<open>", "\<close> and the second
  value before streaming them (line 31).
\<close>

definition default_model_line ::
  "('t \<Rightarrow> string) \<Rightarrow> 't Circuit \<Rightarrow> 't list \<Rightarrow> 't list \<Rightarrow>
   (string \<rightharpoonup> string) \<Rightarrow> (string \<rightharpoonup> string) \<Rightarrow> nat \<Rightarrow> string list option"
where
  "default_model_line toString c1 vterms1 vterms2 mmap1 mmap2 i = do {
     t1 \<leftarrow> vec_at vterms1 i;
     let vname1 = toString t1;
     t2 \<leftarrow> vec_at vterms2 i;
     let vname2 = toString t2;
     r \<leftarrow> vec_at (real_variable_index c1) i;
     Some (if r = i
       then [''{'', umap_index mmap1 vname1, '', '', umap_index mmap2 vname2, ''}'',
             '',           // '', vname1, '', '', vname2, endl]
       else [''{'', umap_index mmap1 vname1, '', '' @ umap_index mmap2 vname2, ''}'',
             '',           // '', vname1, '' ,'', vname2, '' -> '', uint_to_string r, endl])
   }"

text \<open>A loop over the indices that appends what its body streams.\<close>

primrec write_lines ::
  "(nat \<Rightarrow> string list option) \<Rightarrow> nat list \<Rightarrow> string list \<Rightarrow> string list option"
where
  "write_lines body [] myfile = Some myfile"
| "write_lines body (i # js) myfile = do {
     l \<leftarrow> body i;
     write_lines body js (myfile @ l)
   }"

text \<open>
  The loop over \<open>special\<close> of lines 39 to 42: two insertions per name, the first
  circuit's before the second's.
\<close>

definition special_terms ::
  "string list \<Rightarrow> 't Circuit \<Rightarrow> 't Circuit \<Rightarrow> (string \<rightharpoonup> 't)"
where
  "special_terms special c1 c2 =
     fold (\<lambda>vname vterms.
            umap_insert (umap_insert vterms (vname @ ''_1'') (named_var c1 vname))
              (vname @ ''_2'') (named_var c2 vname))
       special Map.empty"

text \<open>
  The whole function. The loop counters are \<open>uint32_t\<close> and the bound is a
  \<open>size_t\<close>: with \<open>2^32\<close> variables or more the counter wraps before it reaches
  the bound and the first loop never ends, so there is no result. The streamed
  operands are kept as a list until the file is closed; its contents are their
  concatenation.
\<close>

definition default_model ::
  "('t \<Rightarrow> string) \<Rightarrow> string list \<Rightarrow> 't Circuit \<Rightarrow> 't Circuit \<Rightarrow> 't Solver \<Rightarrow> string
   \<Rightarrow> dump option"
where
  "default_model toString special c1 c2 s fname =
     (if 2 ^ 32 \<le> num_vars c1 then None
      else do {
        (vterms1, vterms2) \<leftarrow> collect_terms c1 c2 [0..<num_vars c1] ([], []);
        let mmap1 = model_terms s vterms1;
        let mmap2 = model_terms s vterms2;
        myfile \<leftarrow> write_lines (default_model_line toString c1 vterms1 vterms2 mmap1 mmap2)
                    [0..<num_vars c1] [''w12 = {'', endl];
        let myfile = myfile @ [''};''];
        let mmap = model_named s (special_terms special c1 c2);
        Some \<lparr>path = fname, contents = concat myfile,
              info_log = map (\<lambda>vname. concat [vname, ''_1, '', vname, ''_2 = '',
                                  umap_index mmap (vname @ ''_1''), '', '',
                                  umap_index mmap (vname @ ''_2'')]) special\<rparr>
      })"

subsection \<open>default\_model\_single\<close>

text \<open>The first loop (lines 55 to 57) pushes \<open>c.symbolic_vars[i]\<close> itself.\<close>

primrec collect_terms_single :: "'t Circuit \<Rightarrow> nat list \<Rightarrow> 't list \<Rightarrow> 't list option" where
  "collect_terms_single c [] acc = Some acc"
| "collect_terms_single c (i # js) acc = do {
     t \<leftarrow> vec_at (symbolic_vars c) i;
     collect_terms_single c js (acc @ [t])
   }"

text \<open>The body of the second loop (lines 65 to 70).\<close>

definition default_model_single_line ::
  "('t \<Rightarrow> string) \<Rightarrow> 't Circuit \<Rightarrow> 't list \<Rightarrow> (string \<rightharpoonup> string) \<Rightarrow> nat \<Rightarrow> string list option"
where
  "default_model_single_line toString c vterms mmap i = do {
     t \<leftarrow> vec_at vterms i;
     let vname = toString t;
     r \<leftarrow> vec_at (real_variable_index c) i;
     Some (if r = i
       then [umap_index mmap vname, '',              // '', vname, endl]
       else [umap_index mmap vname, '',              // '', vname, '' -> '',
             uint_to_string r, endl])
   }"

definition special_terms_single :: "string list \<Rightarrow> 't Circuit \<Rightarrow> (string \<rightharpoonup> 't)" where
  "special_terms_single special c =
     fold (\<lambda>vname vterms1. umap_insert vterms1 vname (named_var c vname)) special Map.empty"

definition default_model_single ::
  "('t \<Rightarrow> string) \<Rightarrow> string list \<Rightarrow> 't Circuit \<Rightarrow> 't Solver \<Rightarrow> string \<Rightarrow> dump option"
where
  "default_model_single toString special c s fname =
     (if 2 ^ 32 \<le> num_vars c then None
      else do {
        vterms \<leftarrow> collect_terms_single c [0..<num_vars c] [];
        let mmap = model_terms s vterms;
        myfile \<leftarrow> write_lines (default_model_single_line toString c vterms mmap)
                    [0..<num_vars c] [''w = {'', endl];
        let myfile = myfile @ [''};''];
        let mmap1 = model_named s (special_terms_single special c);
        Some \<lparr>path = fname, contents = concat myfile,
              info_log = map (\<lambda>vname. concat [vname, '' = '', umap_index mmap1 vname])
                           special\<rparr>
      })"

subsection \<open>Closed forms of the loops\<close>

text \<open>
  What the first loop of \<open>default_model\<close> leaves in \<open>vterms1\<close> (and, for the second
  circuit, in \<open>vterms2\<close>) when every index is in range.
\<close>

definition canonical_terms :: "'t Circuit \<Rightarrow> nat list \<Rightarrow> 't list" where
  "canonical_terms c js = map (\<lambda>i. symbolic_vars c ! (real_variable_index c ! i)) js"

text \<open>The reads of the first loop are inside both vectors of circuit \<open>c\<close>.\<close>

definition indices_in_range :: "'t Circuit \<Rightarrow> nat list \<Rightarrow> bool" where
  "indices_in_range c js =
     list_all (\<lambda>i. i < length (real_variable_index c) \<and>
                    real_variable_index c ! i < length (symbolic_vars c)) js"

text \<open>
  The calls on which \<open>default_model\<close> returns: the counter does not wrap and no
  vector is read out of range. Both circuits are read at the indices below the
  first circuit's number of variables.
\<close>

definition dump_defined :: "'t Circuit \<Rightarrow> 't Circuit \<Rightarrow> bool" where
  "dump_defined c1 c2 \<longleftrightarrow>
     num_vars c1 < 2 ^ 32 \<and>
     indices_in_range c1 [0..<num_vars c1] \<and> indices_in_range c2 [0..<num_vars c1]"

text \<open>The same for \<open>default_model_single\<close>, which reads both vectors at \<open>i\<close>.\<close>

definition dump_single_defined :: "'t Circuit \<Rightarrow> bool" where
  "dump_single_defined c \<longleftrightarrow>
     num_vars c < 2 ^ 32 \<and> num_vars c \<le> length (symbolic_vars c) \<and>
     num_vars c \<le> length (real_variable_index c)"

text \<open>
  Line \<open>i\<close> of the two-circuit dump, as the operands streamed for it, written from
  the circuits and the solver alone: the two model values in braces, then the comment
  with the two names and, when the first circuit's canonical index differs from
  \<open>i\<close>, that index.
\<close>

definition pair_line ::
  "('t \<Rightarrow> string) \<Rightarrow> 't Circuit \<Rightarrow> 't Circuit \<Rightarrow> 't Solver \<Rightarrow> nat \<Rightarrow> string list"
where
  "pair_line toString c1 c2 s i =
     (let n = num_vars c1;
          t1 = symbolic_vars c1 ! (real_variable_index c1 ! i);
          t2 = symbolic_vars c2 ! (real_variable_index c2 ! i);
          v1 = umap_index (model_terms s (canonical_terms c1 [0..<n])) (toString t1);
          v2 = umap_index (model_terms s (canonical_terms c2 [0..<n])) (toString t2)
      in if real_variable_index c1 ! i = i
         then [''{'', v1, '', '', v2, ''}'', '',           // '', toString t1, '', '',
               toString t2, endl]
         else [''{'', v1, '', '' @ v2, ''}'', '',           // '', toString t1, '' ,'',
               toString t2, '' -> '', uint_to_string (real_variable_index c1 ! i), endl])"

text \<open>Line \<open>i\<close> of the single-circuit dump, in the same way.\<close>

definition single_line :: "('t \<Rightarrow> string) \<Rightarrow> 't Circuit \<Rightarrow> 't Solver \<Rightarrow> nat \<Rightarrow> string list" where
  "single_line toString c s i =
     (let t = symbolic_vars c ! i;
          v = umap_index (model_terms s (take (num_vars c) (symbolic_vars c))) (toString t)
      in if real_variable_index c ! i = i
         then [v, '',              // '', toString t, endl]
         else [v, '',              // '', toString t, '' -> '',
               uint_to_string (real_variable_index c ! i), endl])"

subsection \<open>A concrete circuit and solver\<close>

text \<open>
  Four variables, the fourth an alias of the third; terms are their own names. The
  solver gives every name a value of its own, so the alias \<open>b\<close> has a value that
  differs from the value of \<open>a\<close>.
\<close>

definition ex_circuit :: "string \<Rightarrow> string Circuit" where
  "ex_circuit tag =
     \<lparr>num_vars = 4, real_variable_index = [0, 1, 2, 2],
      symbolic_vars = [''zero'' @ tag, ''one'' @ tag, ''a'' @ tag, ''b'' @ tag],
      named_var = (\<lambda>name. name @ tag)\<rparr>"

definition ex_value :: "string \<Rightarrow> string" where
  "ex_value t =
     (if t = ''one_1'' \<or> t = ''one_2'' then ''1''
      else if t = ''a_1'' then ''5''
      else if t = ''a_2'' then ''6''
      else if t = ''b_1'' then ''9''
      else ''0'')"

definition ex_solver :: "string Solver" where
  "ex_solver =
     \<lparr>model_terms = (\<lambda>ts k. if k \<in> set ts then Some (ex_value k) else None),
      model_named = (\<lambda>m k. map_option ex_value (m k))\<rparr>"

text \<open>
  A second solver: it answers as the first on every vector of four terms and knows
  nothing about any other vector.
\<close>

definition ex_solver' :: "string Solver" where
  "ex_solver' =
     \<lparr>model_terms = (\<lambda>ts. if length ts = 4 then model_terms ex_solver ts else Map.empty),
      model_named = (\<lambda>m k. map_option ex_value (m k))\<rparr>"


section \<open>The lookup binding of lookups\_bc\_decomposition.hpp\<close>

subsection \<open>Columns and rows\<close>

text \<open>
  The enum \<open>Column\<close> is declared in columns.hpp, which is not among the sources.
  It is taken with the eight entries that this file names; \<open>Column::x\<close> is written
  \<open>Column_x\<close>.
\<close>

datatype Column =
    Column_bc_decomposition_sel
  | Column_precomputed_sel_unary
  | Column_lookup_bytecode_to_read_unary_counts
  | Column_lookup_bytecode_to_read_unary_inv
  | Column_bc_decomposition_bytes_to_read
  | Column_bc_decomposition_bytes_to_read_unary
  | Column_precomputed_clk
  | Column_precomputed_as_unary

text \<open>
  \<open>AllEntities\<close> is a template parameter: a row of the trace, with one member per
  column. The record has the members that this file reads; \<open>'a\<close> is the type of a
  field element (or of a view of one: \<open>View(x)\<close> reads the value \<open>x\<close>).
\<close>

record 'a AllEntities =
  lookup_bytecode_to_read_unary_inv :: 'a
  lookup_bytecode_to_read_unary_counts :: 'a
  bc_decomposition_sel :: 'a
  precomputed_sel_unary :: 'a
  bc_decomposition_bytes_to_read :: 'a
  bc_decomposition_bytes_to_read_unary :: 'a
  precomputed_clk :: 'a
  precomputed_as_unary :: 'a

text \<open>
  The member of a row that an entry of the enum names: entries and members carry the
  same names.
\<close>

fun entity :: "Column \<Rightarrow> 'a AllEntities \<Rightarrow> 'a" where
  "entity Column_bc_decomposition_sel = bc_decomposition_sel"
| "entity Column_precomputed_sel_unary = precomputed_sel_unary"
| "entity Column_lookup_bytecode_to_read_unary_counts = lookup_bytecode_to_read_unary_counts"
| "entity Column_lookup_bytecode_to_read_unary_inv = lookup_bytecode_to_read_unary_inv"
| "entity Column_bc_decomposition_bytes_to_read = bc_decomposition_bytes_to_read"
| "entity Column_bc_decomposition_bytes_to_read_unary = bc_decomposition_bytes_to_read_unary"
| "entity Column_precomputed_clk = precomputed_clk"
| "entity Column_precomputed_as_unary = precomputed_as_unary"

subsection \<open>The settings class\<close>

text \<open>
  The members of a lookup settings class, as \<open>GenericLookupRelation\<close> takes them
  from its template argument: the constants, the columns and the five static
  functions.
\<close>

record 'a lookup_settings =
  READ_TERMS :: nat
  WRITE_TERMS :: nat
  READ_TERM_TYPES :: "nat list"
  WRITE_TERM_TYPES :: "nat list"
  LOOKUP_TUPLE_SIZE :: nat
  INVERSE_EXISTS_POLYNOMIAL_DEGREE :: nat
  READ_TERM_DEGREE :: nat
  WRITE_TERM_DEGREE :: nat
  SRC_SELECTOR :: Column
  DST_SELECTOR :: Column
  COUNTS :: Column
  INVERSES :: Column
  SRC_COLUMNS :: "Column list"
  DST_COLUMNS :: "Column list"
  inverse_polynomial_is_computed_at_row :: "'a AllEntities \<Rightarrow> bool"
  compute_inverse_exists :: "'a AllEntities \<Rightarrow> 'a"
  get_const_entities :: "'a AllEntities \<Rightarrow> 'a list"
  get_nonconst_entities :: "'a AllEntities \<Rightarrow> 'a list"
  get_entities :: "'a AllEntities \<Rightarrow> 'a list"

text \<open>
  The static functions of \<open>lookup_bytecode_to_read_unary_lookup_settings\<close> (lines 37
  to 71), each under the name of the class and its own. \<open>in\<close> is a keyword here, so
  the row is \<open>in'\<close>.
\<close>

definition lookup_bytecode_to_read_unary_inverse_polynomial_is_computed_at_row ::
  "('a::comm_ring_1) AllEntities \<Rightarrow> bool"
where
  "lookup_bytecode_to_read_unary_inverse_polynomial_is_computed_at_row in' \<longleftrightarrow>
     bc_decomposition_sel in' = 1 \<or> precomputed_sel_unary in' = 1"

definition lookup_bytecode_to_read_unary_compute_inverse_exists ::
  "('a::comm_ring_1) AllEntities \<Rightarrow> 'a"
where
  "lookup_bytecode_to_read_unary_compute_inverse_exists in' =
     (let is_operation = bc_decomposition_sel in';
          is_table_entry = precomputed_sel_unary in'
      in is_operation + is_table_entry - is_operation * is_table_entry)"

text \<open>
  \<open>get_entities\<close> returns \<open>std::forward_as_tuple\<close> of eight members of the row:
  a tuple of references. The model keeps the order and reads the references, so the
  tuple is the list of the eight values; the const and the non-const accessor both
  call \<open>get_entities\<close>.
\<close>

definition lookup_bytecode_to_read_unary_get_entities :: "'a AllEntities \<Rightarrow> 'a list" where
  "lookup_bytecode_to_read_unary_get_entities in' =
     [lookup_bytecode_to_read_unary_inv in',
      lookup_bytecode_to_read_unary_counts in',
      bc_decomposition_sel in',
      precomputed_sel_unary in',
      bc_decomposition_bytes_to_read in',
      bc_decomposition_bytes_to_read_unary in',
      precomputed_clk in',
      precomputed_as_unary in']"

definition lookup_bytecode_to_read_unary_get_const_entities :: "'a AllEntities \<Rightarrow> 'a list" where
  "lookup_bytecode_to_read_unary_get_const_entities in' =
     lookup_bytecode_to_read_unary_get_entities in'"

definition lookup_bytecode_to_read_unary_get_nonconst_entities :: "'a AllEntities \<Rightarrow> 'a list" where
  "lookup_bytecode_to_read_unary_get_nonconst_entities in' =
     lookup_bytecode_to_read_unary_get_entities in'"

text \<open>
  The class itself (lines 15 to 72).
\<close>

definition lookup_bytecode_to_read_unary_lookup_settings :: "('a::comm_ring_1) lookup_settings" where
  "lookup_bytecode_to_read_unary_lookup_settings =
     \<lparr>READ_TERMS = 1,
      WRITE_TERMS = 1,
      READ_TERM_TYPES = [0],
      WRITE_TERM_TYPES = [0],
      LOOKUP_TUPLE_SIZE = 2,
      INVERSE_EXISTS_POLYNOMIAL_DEGREE = 4,
      READ_TERM_DEGREE = 0,
      WRITE_TERM_DEGREE = 0,
      SRC_SELECTOR = Column_bc_decomposition_sel,
      DST_SELECTOR = Column_precomputed_sel_unary,
      COUNTS = Column_lookup_bytecode_to_read_unary_counts,
      INVERSES = Column_lookup_bytecode_to_read_unary_inv,
      SRC_COLUMNS = [Column_bc_decomposition_bytes_to_read,
                     Column_bc_decomposition_bytes_to_read_unary],
      DST_COLUMNS = [Column_precomputed_clk, Column_precomputed_as_unary],
      inverse_polynomial_is_computed_at_row =
        lookup_bytecode_to_read_unary_inverse_polynomial_is_computed_at_row,
      compute_inverse_exists = lookup_bytecode_to_read_unary_compute_inverse_exists,
      get_const_entities = lookup_bytecode_to_read_unary_get_const_entities,
      get_nonconst_entities = lookup_bytecode_to_read_unary_get_nonconst_entities,
      get_entities = lookup_bytecode_to_read_unary_get_entities\<rparr>"

subsection \<open>The relation class\<close>

text \<open>
  \<open>lookup_bytecode_to_read_unary_relation\<close> (lines 74 to 79) derives from
  \<open>GenericLookupRelation<lookup_bytecode_to_read_unary_lookup_settings, FF_>\<close> and
  declares one member, the constant \<open>NAME\<close>. The template is declared in
  generic\_lookup\_relation.hpp, which is not among the sources: it is a parameter,
  a function from a settings class to the members of the instance, by name. A
  class is modelled by the lookup of a member name in it: the class's own
  declarations first, then the base class.
\<close>

datatype 'm member = String_view string | Template_member 'm

definition class_lookup :: "(string \<rightharpoonup> 'm member) \<Rightarrow> (string \<rightharpoonup> 'm) \<Rightarrow> string \<rightharpoonup> 'm member" where
  "class_lookup own base name =
     (case own name of Some m \<Rightarrow> Some m | None \<Rightarrow> map_option Template_member (base name))"

definition lookup_bytecode_to_read_unary_relation_members :: "string \<rightharpoonup> 'm member" where
  "lookup_bytecode_to_read_unary_relation_members =
     [''NAME'' \<mapsto> String_view ''LOOKUP_BYTECODE_TO_READ_UNARY'']"

definition lookup_bytecode_to_read_unary_relation ::
  "(('a::comm_ring_1) lookup_settings \<Rightarrow> string \<rightharpoonup> 'm) \<Rightarrow> string \<rightharpoonup> 'm member"
where
  "lookup_bytecode_to_read_unary_relation GenericLookupRelation =
     class_lookup lookup_bytecode_to_read_unary_relation_members
       (GenericLookupRelation lookup_bytecode_to_read_unary_lookup_settings)"

subsection \<open>What a lookup relation enforces\<close>

text \<open>
  Modelled from the spec: the constraint that \<open>GenericLookupRelation\<close> enforces is
  defined in generic\_lookup\_relation.hpp, which is not among the sources. The spec's
  glossary says of a lookup relation that it is "a constraint type enforcing that
  certain column tuples in a proof table appear in a reference table". With the
  settings' names: for every row selected by \<open>SRC_SELECTOR\<close> (the selector is 1, as
  in \<open>inverse_polynomial_is_computed_at_row\<close>), the tuple of its \<open>SRC_COLUMNS\<close> is
  the tuple of the \<open>DST_COLUMNS\<close> of some row selected by \<open>DST_SELECTOR\<close>.
\<close>

definition lookup_relation_holds :: "('a::one) lookup_settings \<Rightarrow> 'a AllEntities list \<Rightarrow> bool" where
  "lookup_relation_holds S rows \<longleftrightarrow>
     list_all (\<lambda>r. entity (SRC_SELECTOR S) r = 1 \<longrightarrow>
       list_ex (\<lambda>t. entity (DST_SELECTOR S) t = 1 \<and>
                    map (\<lambda>col. entity col t) (DST_COLUMNS S) =
                    map (\<lambda>col. entity col r) (SRC_COLUMNS S)) rows) rows"

subsection \<open>Concrete rows and a concrete template\<close>

text \<open>
  A row over the integers, given by its source selector, its source tuple and its
  table tuple; the table selector is 1. And a template instance with one member.
\<close>

definition ex_row :: "int \<Rightarrow> int \<Rightarrow> int \<Rightarrow> int \<Rightarrow> int \<Rightarrow> int AllEntities" where
  "ex_row sel to_read to_read_unary clk as_unary =
     \<lparr>lookup_bytecode_to_read_unary_inv = 0,
      lookup_bytecode_to_read_unary_counts = 0,
      bc_decomposition_sel = sel,
      precomputed_sel_unary = 1,
      bc_decomposition_bytes_to_read = to_read,
      bc_decomposition_bytes_to_read_unary = to_read_unary,
      precomputed_clk = clk,
      precomputed_as_unary = as_unary\<rparr>"

definition ex_generic :: "int lookup_settings \<Rightarrow> string \<rightharpoonup> (int AllEntities \<Rightarrow> int)" where
  "ex_generic S = [''compute_inverse_exists'' \<mapsto> compute_inverse_exists S]"

section \<open>The tests of circuit.test.cpp\<close>

subsection \<open>The solver and the symbolic terms\<close>

text \<open>
  Modelled from the spec: the symbolic term algebra \<open>FFTerm\<close>, the solver and the
  translation of a circuit into assertions are in circuit.hpp and the files it
  includes, none of which is among the sources. The spec calls them "the symbolic
  field-term algebra" and an engine that decides whether a witness exists (it
  "asserts solver outcomes (satisfiable/unsatisfiable)"). A term is built from named
  variables and constants with the field's addition and multiplication.
\<close>

datatype FFTerm = Var string | Const int | Add FFTerm FFTerm | Mul FFTerm FFTerm

text \<open>
  Modelled from the spec: \<open>operator==\<close> and \<open>operator!=\<close> on terms, which are
  missing with \<open>FFTerm\<close>, record an equality or a disequality in the solver. The
  solver's state is the list of what was recorded.
\<close>

datatype Assertion = Eq FFTerm FFTerm | Neq FFTerm FFTerm

text \<open>
  Modelled from the spec: the value of a term under an assignment of the variables
  (a witness), in the field of integers modulo \<open>p\<close>. The tests create the solver with
  \<open>circuit_info.modulus\<close>, which is the parameter \<open>p\<close>.
\<close>

primrec eval_term :: "nat \<Rightarrow> (string \<Rightarrow> int) \<Rightarrow> FFTerm \<Rightarrow> int" where
  "eval_term p env (Var x) = env x mod int p"
| "eval_term p env (Const k) = k mod int p"
| "eval_term p env (Add s t) = (eval_term p env s + eval_term p env t) mod int p"
| "eval_term p env (Mul s t) = (eval_term p env s * eval_term p env t) mod int p"

primrec holds :: "nat \<Rightarrow> (string \<Rightarrow> int) \<Rightarrow> Assertion \<Rightarrow> bool" where
  "holds p env (Eq s t) \<longleftrightarrow> eval_term p env s = eval_term p env t"
| "holds p env (Neq s t) \<longleftrightarrow> eval_term p env s \<noteq> eval_term p env t"

text \<open>
  Modelled from the spec: \<open>Solver::check\<close>, which is missing with the solver, returns
  true when some witness satisfies everything recorded, and false when none does.
\<close>

definition check :: "nat \<Rightarrow> Assertion list \<Rightarrow> bool" where
  "check p assertions \<longleftrightarrow> (\<exists>env. list_all (holds p env) assertions)"

text \<open>
  The modulus of a field is a prime: no number from 2 below \<open>p\<close> divides \<open>p\<close>.
\<close>

definition prime_modulus :: "nat \<Rightarrow> bool" where
  "prime_modulus p \<longleftrightarrow> 1 < p \<and> list_all (\<lambda>m. \<not> m dvd p) [2..<p]"

text \<open>
  Modelled from the spec: \<open>operator/\<close> on terms, missing with \<open>FFTerm\<close>. The
  quotient of the "arithmetic identity" \<open>x / y\<close> is a fresh variable \<open>q\<close> with
  \<open>y \<noteq> 0\<close> and \<open>q * y = x\<close>; the function returns the term and what it
  records.
\<close>

definition ff_div :: "FFTerm \<Rightarrow> FFTerm \<Rightarrow> string \<Rightarrow> FFTerm \<times> Assertion list" where
  "ff_div x y fresh = (Var fresh, [Neq y (Const 0), Eq (Mul (Var fresh) y) x])"

text \<open>
  Modelled from the spec: what the solver records for "a circuit computing"
  \<open>c = x / y\<close> with \<open>field_t::operator/\<close> (the circuit builder, the primitive
  \<open>field_t\<close> and the constructor of \<open>smt_circuit::Circuit\<close> are missing): the
  divisor is not zero and \<open>c * y = x\<close>.
\<close>

definition field_div_circuit :: "FFTerm \<Rightarrow> FFTerm \<Rightarrow> FFTerm \<Rightarrow> Assertion list" where
  "field_div_circuit c x y = [Neq y (Const 0), Eq (Mul c y) x]"

subsection \<open>The three tests\<close>

text \<open>
  \<open>TEST(circuit, expressionTrue)\<close>, lines 22 to 49: the circuit is
  \<open>c = (a + a) / (b + b + b)\<close>; \<open>cr\<close> is first a variable and then assigned the
  term \<open>(2 * a1) / (2 * b1 + b1)\<close>; the test records \<open>c1 != cr\<close>. The value of
  \<open>res\<close> is the result of \<open>s.check()\<close>, which the test asserts to be false.
\<close>

definition expressionTrue_assertions :: "Assertion list" where
  "expressionTrue_assertions =
     (let a = Var ''a''; b = Var ''b''; c = Var ''c'';
          circuit = field_div_circuit c (Add a a) (Add (Add b b) b);
          a1 = a; b1 = b; c1 = c;
          (cr, division) = ff_div (Mul (Const 2) a1) (Add (Mul (Const 2) b1) b1) ''cr_div''
      in circuit @ division @ [Neq c1 cr])"

definition expressionTrue :: "nat \<Rightarrow> bool" where
  "expressionTrue modulus = check modulus expressionTrue_assertions"

text \<open>
  \<open>TEST(circuit, multiplicationTrueKind)\<close>, lines 52 to 80: the same circuit; the
  test records \<open>cr * 3 * b1 == 2 * a1\<close> and \<open>c1 != cr\<close> and asserts that
  \<open>s.check()\<close> is false.
\<close>

definition multiplicationTrueKind_assertions :: "Assertion list" where
  "multiplicationTrueKind_assertions =
     (let a = Var ''a''; b = Var ''b''; c = Var ''c'';
          circuit = field_div_circuit c (Add a a) (Add (Add b b) b);
          a1 = a; b1 = b; c1 = c;
          cr = Var ''cr''
      in circuit @ [Eq (Mul (Mul cr (Const 3)) b1) (Mul (Const 2) a1), Neq c1 cr])"

definition multiplicationTrueKind :: "nat \<Rightarrow> bool" where
  "multiplicationTrueKind modulus = check modulus multiplicationTrueKind_assertions"

text \<open>
  \<open>TEST(circuit, multiplicationFalse)\<close>, lines 83 to 134: the circuit is
  \<open>c = a / (b + b + b)\<close> ("mistake was here"); \<open>cr\<close> is assigned
  \<open>(2 * a1) / (3 * b1)\<close>; the test records \<open>c1 != cr\<close> and asserts that
  \<open>s.check()\<close> is true, then asks the solver for the values of \<open>a\<close>, \<open>b\<close>,
  \<open>c\<close> and \<open>cr\<close>.
\<close>

definition multiplicationFalse_assertions :: "Assertion list" where
  "multiplicationFalse_assertions =
     (let a = Var ''a''; b = Var ''b''; c = Var ''c'';
          circuit = field_div_circuit c a (Add (Add b b) b);
          a1 = a; b1 = b; c1 = c;
          (cr, division) = ff_div (Mul (Const 2) a1) (Mul (Const 3) b1) ''cr_div''
      in circuit @ division @ [Neq c1 cr])"

definition multiplicationFalse :: "nat \<Rightarrow> bool" where
  "multiplicationFalse modulus = check modulus multiplicationFalse_assertions"

text \<open>
  A witness of the mistake: \<open>a = 3\<close>, \<open>b = 1\<close>, \<open>c = 1\<close> and \<open>cr = 2\<close>.
\<close>

definition multiplicationFalse_model :: "string \<Rightarrow> int" where
  "multiplicationFalse_model x =
     (if x = ''a'' then 3 else if x = ''b'' then 1 else if x = ''c'' then 1 else 2)"

section \<open>Properties of the witness dump utilities\<close>

subsection \<open>The loops in closed form\<close>

lemma vec_at_eq_Some: "vec_at xs i = Some x \<longleftrightarrow> i < length xs \<and> x = xs ! i"
  by (auto simp: vec_at_def)

lemma collect_terms_Some_iff:
  "collect_terms c1 c2 js acc = Some r \<longleftrightarrow>
     indices_in_range c1 js \<and> indices_in_range c2 js \<and>
     r = (fst acc @ canonical_terms c1 js, snd acc @ canonical_terms c2 js)"
proof (induction js arbitrary: acc)
  case Nil
  then show ?case by (auto simp: indices_in_range_def canonical_terms_def)
next
  case (Cons i js)
  show ?case
    by (simp add: Cons.IH indices_in_range_def canonical_terms_def bind_eq_Some_conv
          vec_at_eq_Some) blast
qed

lemma write_lines_Some_iff:
  "write_lines body js myfile = Some out \<longleftrightarrow>
     list_all (\<lambda>i. body i \<noteq> None) js \<and> out = myfile @ concat (map (\<lambda>i. the (body i)) js)"
proof (induction js arbitrary: myfile)
  case Nil
  then show ?case by auto
next
  case (Cons i js)
  show ?case by (cases "body i") (auto simp: Cons.IH)
qed

lemma write_lines_closed:
  "(\<And>i. i \<in> set js \<Longrightarrow> body i = Some (f i)) \<Longrightarrow>
     write_lines body js myfile = Some (myfile @ concat (map f js))"
  by (induction js arbitrary: myfile) simp_all

lemma concat_concat_map: "concat (concat (map f xs)) = concat (map (\<lambda>x. concat (f x)) xs)"
  by (induction xs) simp_all

lemma indices_in_range_nth:
  "indices_in_range c [0..<n] \<Longrightarrow> i < n \<Longrightarrow>
     i < length (real_variable_index c) \<and> real_variable_index c ! i < length (symbolic_vars c)"
  by (simp add: indices_in_range_def list_all_iff)

lemma canonical_terms_nth:
  "i < n \<Longrightarrow> canonical_terms c [0..<n] ! i = symbolic_vars c ! (real_variable_index c ! i)"
  by (simp add: canonical_terms_def)

lemma length_canonical_terms [simp]: "length (canonical_terms c js) = length js"
  by (simp add: canonical_terms_def)

lemma default_model_line_closed:
  assumes "dump_defined c1 c2" and "i < num_vars c1"
  shows "default_model_line toString c1 (canonical_terms c1 [0..<num_vars c1])
           (canonical_terms c2 [0..<num_vars c1])
           (model_terms s (canonical_terms c1 [0..<num_vars c1]))
           (model_terms s (canonical_terms c2 [0..<num_vars c1])) i
         = Some (pair_line toString c1 c2 s i)"
proof -
  from assms have "i < length (real_variable_index c1)"
    using indices_in_range_nth [of c1 "num_vars c1" i] by (simp add: dump_defined_def)
  with assms(2) show ?thesis
    by (simp add: default_model_line_def pair_line_def vec_at_def canonical_terms_nth Let_def)
qed

lemma default_model_closed:
  assumes "dump_defined c1 c2"
  shows "default_model toString special c1 c2 s fname =
     Some \<lparr>path = fname,
           contents = ''w12 = {'' @ endl @
             concat (map (\<lambda>i. concat (pair_line toString c1 c2 s i)) [0..<num_vars c1]) @ ''};'',
           info_log = map (\<lambda>vname. vname @ ''_1, '' @ vname @ ''_2 = '' @
               umap_index (model_named s (special_terms special c1 c2)) (vname @ ''_1'') @ '', '' @
               umap_index (model_named s (special_terms special c1 c2)) (vname @ ''_2'')) special\<rparr>"
proof -
  let ?n = "num_vars c1"
  let ?v1 = "canonical_terms c1 [0..<?n]" and ?v2 = "canonical_terms c2 [0..<?n]"
  let ?body = "default_model_line toString c1 ?v1 ?v2 (model_terms s ?v1) (model_terms s ?v2)"
  have ct: "collect_terms c1 c2 [0..<?n] ([], []) = Some (?v1, ?v2)"
    using assms by (simp add: collect_terms_Some_iff dump_defined_def)
  have body: "\<And>i. i < ?n \<Longrightarrow> ?body i = Some (pair_line toString c1 c2 s i)"
    using assms by (rule default_model_line_closed)
  have wl: "write_lines ?body [0..<?n] [''w12 = {'', endl] =
      Some ([''w12 = {'', endl] @ concat (map (pair_line toString c1 c2 s) [0..<?n]))"
    by (rule write_lines_closed) (simp add: body)
  have small: "\<not> 2 ^ 32 \<le> ?n"
    using assms by (simp add: dump_defined_def)
  show ?thesis
    unfolding default_model_def using small
    by (simp add: ct wl Let_def concat_concat_map del: upt_Suc)
qed

lemma default_model_None_iff:
  "default_model toString special c1 c2 s fname = None \<longleftrightarrow> \<not> dump_defined c1 c2"
proof (cases "dump_defined c1 c2")
  case True
  then show ?thesis by (simp add: default_model_closed)
next
  case False
  show ?thesis
  proof (cases "2 ^ 32 \<le> num_vars c1")
    case True
    then show ?thesis using False by (simp add: default_model_def)
  next
    case small: False
    with False have "collect_terms c1 c2 [0..<num_vars c1] ([], []) = None"
      using collect_terms_Some_iff [of c1 c2 "[0..<num_vars c1]" "([], [])"]
      by (cases "collect_terms c1 c2 [0..<num_vars c1] ([], [])") (auto simp: dump_defined_def)
    then show ?thesis using False small by (simp add: default_model_def)
  qed
qed

lemma collect_terms_single_Some_iff:
  "collect_terms_single c js acc = Some r \<longleftrightarrow>
     list_all (\<lambda>i. i < length (symbolic_vars c)) js \<and> r = acc @ map (\<lambda>i. symbolic_vars c ! i) js"
proof (induction js arbitrary: acc)
  case Nil
  then show ?case by auto
next
  case (Cons i js)
  show ?case
    by (simp add: Cons.IH bind_eq_Some_conv vec_at_eq_Some)
qed

lemma take_eq_map_nth: "n \<le> length xs \<Longrightarrow> map (\<lambda>i. xs ! i) [0..<n] = take n xs"
  by (rule nth_equalityI) simp_all

lemma all_less_iff_le: "(\<forall>i<n. i < m) \<longleftrightarrow> n \<le> (m::nat)"
proof
  assume a: "\<forall>i<n. i < m"
  show "n \<le> m"
  proof (rule ccontr)
    assume "\<not> n \<le> m"
    then have "m < n" by simp
    with a have "m < m" by blast
    then show False by simp
  qed
qed auto

lemma default_model_single_closed:
  assumes "dump_single_defined c"
  shows "default_model_single toString special c s fname =
     Some \<lparr>path = fname,
           contents = ''w = {'' @ endl @
             concat (map (\<lambda>i. concat (single_line toString c s i)) [0..<num_vars c]) @ ''};'',
           info_log = map (\<lambda>vname. vname @ '' = '' @
               umap_index (model_named s (special_terms_single special c)) vname) special\<rparr>"
proof -
  let ?n = "num_vars c"
  let ?v = "take ?n (symbolic_vars c)"
  let ?body = "default_model_single_line toString c ?v (model_terms s ?v)"
  from assms have n: "?n \<le> length (symbolic_vars c)" "?n \<le> length (real_variable_index c)"
    and small: "\<not> 2 ^ 32 \<le> ?n"
    by (simp_all add: dump_single_defined_def)
  have ct: "collect_terms_single c [0..<?n] [] = Some ?v"
    using n by (simp add: collect_terms_single_Some_iff list_all_iff take_eq_map_nth)
  have body: "?body i = Some (single_line toString c s i)" if "i < ?n" for i
    using that n
    by (simp add: default_model_single_line_def single_line_def vec_at_def Let_def)
  have wl: "write_lines ?body [0..<?n] [''w = {'', endl] =
      Some ([''w = {'', endl] @ concat (map (single_line toString c s) [0..<?n]))"
    by (rule write_lines_closed) (simp add: body)
  show ?thesis
    unfolding default_model_single_def using small
    by (simp add: ct wl Let_def concat_concat_map del: upt_Suc)
qed

lemma default_model_single_Some_defined:
  assumes "default_model_single toString special c s fname = Some d"
  shows "dump_single_defined c"
proof -
  let ?n = "num_vars c"
  from assms have small: "?n < 2 ^ 32"
    by (simp add: default_model_single_def split: if_splits)
  from assms small obtain vterms myfile where
    ct: "collect_terms_single c [0..<?n] [] = Some vterms" and
    wl: "write_lines (default_model_single_line toString c vterms (model_terms s vterms))
           [0..<?n] [''w = {'', endl] = Some myfile"
    by (auto simp: default_model_single_def bind_eq_Some_conv Let_def)
  from ct have "\<forall>i<?n. i < length (symbolic_vars c)"
    by (simp add: collect_terms_single_Some_iff list_all_iff)
  then have l1: "?n \<le> length (symbolic_vars c)"
    by (simp only: all_less_iff_le)
  from wl have "\<forall>i<?n. default_model_single_line toString c vterms (model_terms s vterms) i \<noteq> None"
    by (simp add: write_lines_Some_iff list_all_iff)
  then have "\<forall>i<?n. i < length (real_variable_index c)"
    by (auto simp: default_model_single_line_def vec_at_def bind_eq_None_conv split: if_splits)
  then have l2: "?n \<le> length (real_variable_index c)"
    by (simp only: all_less_iff_le)
  from small l1 l2 show ?thesis
    by (simp add: dump_single_defined_def)
qed

lemma default_model_single_None_iff:
  "default_model_single toString special c s fname = None \<longleftrightarrow> \<not> dump_single_defined c"
proof
  assume "default_model_single toString special c s fname = None"
  then show "\<not> dump_single_defined c"
    by (auto simp: default_model_single_closed)
next
  assume nd: "\<not> dump_single_defined c"
  show "default_model_single toString special c s fname = None"
  proof (cases "default_model_single toString special c s fname")
    case None
    then show ?thesis .
  next
    case (Some d)
    then have "dump_single_defined c" by (rule default_model_single_Some_defined)
    with nd show ?thesis by simp
  qed
qed




lemma upt_0_4: "[0..<4] = [0, 1, 2, 3::nat]"
  by (simp add: upt_rec)

lemma ex_defined: "dump_defined (ex_circuit ''_1'') (ex_circuit ''_2'')"
  by (simp add: dump_defined_def indices_in_range_def ex_circuit_def upt_0_4)

lemma ex_single_defined: "dump_single_defined (ex_circuit ''_1'')"
  by (simp add: dump_single_defined_def ex_circuit_def)

subsection \<open>The format of the file\<close>

text \<open>
  Claim C1. On every call that returns, the file written under \<open>fname\<close> is the
  header \<open>w12 = {\<close> and a line break, then for each index from 0 below
  \<open>get_num_vars()\<close>, in order, the line \<open>pair_line\<close> (the two model values in
  braces, the \<open>//\<close> comment with the two names, a line break), then \<open>};\<close>. For
  \<open>default_model_single\<close> the header is \<open>w = {\<close> and the lines are
  \<open>single_line\<close> (one value, the comment with the name). The calls that return are
  those of \<open>dump_defined\<close> and \<open>dump_single_defined\<close> (lemmas
  \<open>default_model_None_iff\<close> and \<open>default_model_single_None_iff\<close>).
\<close>

theorem dump_file_format:
  assumes "dump_defined c1 c2" and "dump_single_defined c"
  shows "default_model toString special c1 c2 s fname =
           Some \<lparr>path = fname,
                 contents = ''w12 = {'' @ endl @
                   concat (map (\<lambda>i. concat (pair_line toString c1 c2 s i)) [0..<num_vars c1]) @
                   ''};'',
                 info_log = map (\<lambda>vname. vname @ ''_1, '' @ vname @ ''_2 = '' @
                   umap_index (model_named s (special_terms special c1 c2)) (vname @ ''_1'') @
                   '', '' @
                   umap_index (model_named s (special_terms special c1 c2)) (vname @ ''_2''))
                   special\<rparr> \<and>
         default_model_single toString special c s fname =
           Some \<lparr>path = fname,
                 contents = ''w = {'' @ endl @
                   concat (map (\<lambda>i. concat (single_line toString c s i)) [0..<num_vars c]) @
                   ''};'',
                 info_log = map (\<lambda>vname. vname @ '' = '' @
                   umap_index (model_named s (special_terms_single special c)) vname) special\<rparr>"
  using assms by (simp add: default_model_closed default_model_single_closed)

theorem dump_file_format_witness:
  "dump_defined (ex_circuit ''_1'') (ex_circuit ''_2'') \<and>
   dump_single_defined (ex_circuit ''_1'') \<and>
   default_model (\<lambda>t. t) [''a'', ''b''] (ex_circuit ''_1'') (ex_circuit ''_2'') ex_solver
       ''witness.out'' =
     Some \<lparr>path = ''witness.out'',
           contents = ''w12 = {'' @ endl @
             ''{0, 0},           // zero_1, zero_2'' @ endl @
             ''{1, 1},           // one_1, one_2'' @ endl @
             ''{5, 6},           // a_1, a_2'' @ endl @
             ''{5, 6},           // a_1 ,a_2 -> 2'' @ endl @
             ''};'',
           info_log = [''a_1, a_2 = 5, 6'', ''b_1, b_2 = 9, 0'']\<rparr> \<and>
   default_model_single (\<lambda>t. t) [''a'', ''b''] (ex_circuit ''_1'') ex_solver ''witness.out'' =
     Some \<lparr>path = ''witness.out'',
           contents = ''w = {'' @ endl @
             ''0,              // zero_1'' @ endl @
             ''1,              // one_1'' @ endl @
             ''5,              // a_1'' @ endl @
             ''9,              // b_1 -> 2'' @ endl @
             ''};'',
           info_log = [''a = 5'', ''b = 9'']\<rparr>"
proof -
  let ?c1 = "ex_circuit ''_1''" and ?c2 = "ex_circuit ''_2''"
  have d: "dump_defined ?c1 ?c2"
    by (rule ex_defined)
  have ds: "dump_single_defined ?c1"
    by (rule ex_single_defined)
  have n: "num_vars ?c1 = 4"
    by (simp add: ex_circuit_def)
  have l12: "concat (map (\<lambda>i. concat (pair_line (\<lambda>t. t) ?c1 ?c2 ex_solver i)) [0..<4]) =
      ''{0, 0},           // zero_1, zero_2'' @ endl @
      ''{1, 1},           // one_1, one_2'' @ endl @
      ''{5, 6},           // a_1, a_2'' @ endl @
      ''{5, 6},           // a_1 ,a_2 -> 2'' @ endl"
    by code_simp
  have l1: "concat (map (\<lambda>i. concat (single_line (\<lambda>t. t) ?c1 ex_solver i)) [0..<4]) =
      ''0,              // zero_1'' @ endl @
      ''1,              // one_1'' @ endl @
      ''5,              // a_1'' @ endl @
      ''9,              // b_1 -> 2'' @ endl"
    by code_simp
  have i12: "map (\<lambda>vname. vname @ ''_1, '' @ vname @ ''_2 = '' @
        umap_index (model_named ex_solver (special_terms [''a'', ''b''] ?c1 ?c2)) (vname @ ''_1'') @
        '', '' @
        umap_index (model_named ex_solver (special_terms [''a'', ''b''] ?c1 ?c2)) (vname @ ''_2''))
        [''a'', ''b''] = [''a_1, a_2 = 5, 6'', ''b_1, b_2 = 9, 0'']"
    by code_simp
  have i1: "map (\<lambda>vname. vname @ '' = '' @
        umap_index (model_named ex_solver (special_terms_single [''a'', ''b''] ?c1)) vname)
        [''a'', ''b''] = [''a = 5'', ''b = 9'']"
    by code_simp
  from dump_file_format [OF d ds, of "\<lambda>t. t" "[''a'', ''b'']" ex_solver "''witness.out''"]
  show ?thesis
    using d ds by (simp only: n l12 l1 i12 i1 append_assoc simp_thms)
qed

subsection \<open>The alias comment\<close>

text \<open>
  The loop body streams \<open>" -> "\<close>, the decimal canonical index and the line break
  as its last three operands exactly when \<open>real_variable_index[i]\<close> differs from
  \<open>i\<close> (for \<open>default_model\<close> the first circuit's index), and then the text of the
  line ends with them.
\<close>

lemma alias_comment_operands_iff:
  "(default_model_line toString c1 vterms1 vterms2 mmap1 mmap2 i = Some l \<longrightarrow>
      (suffix ['' -> '', uint_to_string (real_variable_index c1 ! i), endl] l
         \<longleftrightarrow> real_variable_index c1 ! i \<noteq> i) \<and>
      (real_variable_index c1 ! i \<noteq> i \<longrightarrow>
         suffix ('' -> '' @ uint_to_string (real_variable_index c1 ! i) @ endl) (concat l))) \<and>
   (default_model_single_line toString c vterms mmap i = Some l' \<longrightarrow>
      (suffix ['' -> '', uint_to_string (real_variable_index c ! i), endl] l'
         \<longleftrightarrow> real_variable_index c ! i \<noteq> i) \<and>
      (real_variable_index c ! i \<noteq> i \<longrightarrow>
         suffix ('' -> '' @ uint_to_string (real_variable_index c ! i) @ endl) (concat l')))"
proof (intro conjI impI)
  assume a: "default_model_line toString c1 vterms1 vterms2 mmap1 mmap2 i = Some l"
  show "suffix ['' -> '', uint_to_string (real_variable_index c1 ! i), endl] l
          \<longleftrightarrow> real_variable_index c1 ! i \<noteq> i"
    using a
    by (auto simp: default_model_line_def bind_eq_Some_conv vec_at_eq_Some Let_def suffix_def
             split: if_splits)
  assume "real_variable_index c1 ! i \<noteq> i"
  with a show "suffix ('' -> '' @ uint_to_string (real_variable_index c1 ! i) @ endl) (concat l)"
    by (auto simp: default_model_line_def bind_eq_Some_conv vec_at_eq_Some Let_def suffix_def)
next
  assume a: "default_model_single_line toString c vterms mmap i = Some l'"
  show "suffix ['' -> '', uint_to_string (real_variable_index c ! i), endl] l'
          \<longleftrightarrow> real_variable_index c ! i \<noteq> i"
    using a
    by (auto simp: default_model_single_line_def bind_eq_Some_conv vec_at_eq_Some Let_def
             suffix_def split: if_splits)
  assume "real_variable_index c ! i \<noteq> i"
  with a show "suffix ('' -> '' @ uint_to_string (real_variable_index c ! i) @ endl) (concat l')"
    by (auto simp: default_model_single_line_def bind_eq_Some_conv vec_at_eq_Some Let_def
             suffix_def)
qed








subsection \<open>Aliased indices share their values\<close>

text \<open>
  Claim C9. In \<open>default_model\<close> the term collected for index \<open>i\<close> is the symbolic
  variable of the canonical index, in each circuit. So two indices with the same
  canonical index in a circuit get the same value of that circuit, and these values
  are what every line prints between its braces. \<open>default_model_single\<close> collects
  \<open>symbolic_vars[i]\<close> itself, and there are a circuit and a solver for which two
  indices with the same canonical index are dumped with different values.
\<close>

theorem canonical_values_equal:
  assumes "collect_terms c1 c2 [0..<num_vars c1] ([], []) = Some (vterms1, vterms2)"
    and "i < num_vars c1" and "j < num_vars c1"
  shows "vterms1 ! i = symbolic_vars c1 ! (real_variable_index c1 ! i) \<and>
         vterms2 ! i = symbolic_vars c2 ! (real_variable_index c2 ! i) \<and>
         (real_variable_index c1 ! i = real_variable_index c1 ! j \<longrightarrow>
            umap_index (model_terms s vterms1) (toString (vterms1 ! i)) =
            umap_index (model_terms s vterms1) (toString (vterms1 ! j))) \<and>
         (real_variable_index c2 ! i = real_variable_index c2 ! j \<longrightarrow>
            umap_index (model_terms s vterms2) (toString (vterms2 ! i)) =
            umap_index (model_terms s vterms2) (toString (vterms2 ! j))) \<and>
         (\<forall>k<num_vars c1. \<exists>l rest.
            default_model_line toString c1 vterms1 vterms2 (model_terms s vterms1)
              (model_terms s vterms2) k = Some l \<and>
            concat l = ''{'' @ umap_index (model_terms s vterms1) (toString (vterms1 ! k)) @ '', '' @
              umap_index (model_terms s vterms2) (toString (vterms2 ! k)) @ ''}'' @ rest) \<and>
         (\<exists>(c :: string Circuit) (s :: string Solver) toString vterms i j.
            collect_terms_single c [0..<num_vars c] [] = Some vterms \<and>
            i < num_vars c \<and> j < num_vars c \<and>
            vterms ! i = symbolic_vars c ! i \<and> vterms ! j = symbolic_vars c ! j \<and>
            real_variable_index c ! i = real_variable_index c ! j \<and>
            umap_index (model_terms s vterms) (toString (vterms ! i)) \<noteq>
            umap_index (model_terms s vterms) (toString (vterms ! j)))"
proof -
  let ?n = "num_vars c1"
  from assms(1) have rng: "indices_in_range c1 [0..<?n]" "indices_in_range c2 [0..<?n]"
    and v1: "vterms1 = canonical_terms c1 [0..<?n]" and v2: "vterms2 = canonical_terms c2 [0..<?n]"
    by (simp_all add: collect_terms_Some_iff)
  have t1: "vterms1 ! k = symbolic_vars c1 ! (real_variable_index c1 ! k)" if "k < ?n" for k
    using that by (simp add: v1 canonical_terms_nth)
  have t2: "vterms2 ! k = symbolic_vars c2 ! (real_variable_index c2 ! k)" if "k < ?n" for k
    using that by (simp add: v2 canonical_terms_nth)
  have lines: "\<exists>l rest.
      default_model_line toString c1 vterms1 vterms2 (model_terms s vterms1)
        (model_terms s vterms2) k = Some l \<and>
      concat l = ''{'' @ umap_index (model_terms s vterms1) (toString (vterms1 ! k)) @ '', '' @
        umap_index (model_terms s vterms2) (toString (vterms2 ! k)) @ ''}'' @ rest"
    if "k < ?n" for k
  proof -
    from that rng have "k < length (real_variable_index c1)"
      using indices_in_range_nth [of c1 ?n k] by simp
    with that show ?thesis
      by (simp add: default_model_line_def vec_at_def v1 v2 Let_def)
  qed
  have single: "\<exists>(c :: string Circuit) (s :: string Solver) toString vterms i j.
      collect_terms_single c [0..<num_vars c] [] = Some vterms \<and>
      i < num_vars c \<and> j < num_vars c \<and>
      vterms ! i = symbolic_vars c ! i \<and> vterms ! j = symbolic_vars c ! j \<and>
      real_variable_index c ! i = real_variable_index c ! j \<and>
      umap_index (model_terms s vterms) (toString (vterms ! i)) \<noteq>
      umap_index (model_terms s vterms) (toString (vterms ! j))"
  proof -
    let ?c = "ex_circuit ''_1''"
    let ?v = "[''zero_1'', ''one_1'', ''a_1'', ''b_1'']"
    have "collect_terms_single ?c [0..<num_vars ?c] [] = Some ?v"
      by code_simp
    moreover have "2 < num_vars ?c" "3 < num_vars ?c"
      by (simp_all add: ex_circuit_def)
    moreover have "?v ! 2 = symbolic_vars ?c ! 2" "?v ! 3 = symbolic_vars ?c ! 3"
      by (simp_all add: ex_circuit_def)
    moreover have "real_variable_index ?c ! 2 = real_variable_index ?c ! 3"
      by (simp add: ex_circuit_def)
    moreover have "umap_index (model_terms ex_solver ?v) (?v ! 2) \<noteq>
        umap_index (model_terms ex_solver ?v) (?v ! 3)"
      by (simp add: ex_solver_def ex_value_def umap_index_def)
    ultimately show ?thesis
      apply -
      apply (rule exI [of _ ?c])
      apply (rule exI [of _ ex_solver])
      apply (rule exI [of _ "\<lambda>t. t"])
      apply (rule exI [of _ ?v])
      apply (rule exI [of _ 2])
      apply (rule exI [of _ 3])
      apply (intro conjI)
            apply assumption+
      done
  qed
  from assms(2,3) t1 t2 lines single show ?thesis
    by (intro conjI impI allI) simp_all
qed

theorem canonical_values_equal_witness:
  "collect_terms (ex_circuit ''_1'') (ex_circuit ''_2'') [0..<num_vars (ex_circuit ''_1'')] ([], []) =
     Some ([''zero_1'', ''one_1'', ''a_1'', ''a_1''], [''zero_2'', ''one_2'', ''a_2'', ''a_2'']) \<and>
   2 < num_vars (ex_circuit ''_1'') \<and> 3 < num_vars (ex_circuit ''_1'') \<and>
   real_variable_index (ex_circuit ''_1'') ! 2 = real_variable_index (ex_circuit ''_1'') ! 3 \<and>
   real_variable_index (ex_circuit ''_2'') ! 2 = real_variable_index (ex_circuit ''_2'') ! 3 \<and>
   umap_index (model_terms ex_solver [''zero_1'', ''one_1'', ''a_1'', ''a_1''])
       ([''zero_1'', ''one_1'', ''a_1'', ''a_1''] ! 2) =
     umap_index (model_terms ex_solver [''zero_1'', ''one_1'', ''a_1'', ''a_1''])
       ([''zero_1'', ''one_1'', ''a_1'', ''a_1''] ! 3) \<and>
   umap_index (model_terms ex_solver [''zero_2'', ''one_2'', ''a_2'', ''a_2''])
       ([''zero_2'', ''one_2'', ''a_2'', ''a_2''] ! 2) =
     umap_index (model_terms ex_solver [''zero_2'', ''one_2'', ''a_2'', ''a_2''])
       ([''zero_2'', ''one_2'', ''a_2'', ''a_2''] ! 3)"
proof -
  let ?c1 = "ex_circuit ''_1''" and ?c2 = "ex_circuit ''_2''"
  have ct: "collect_terms ?c1 ?c2 [0..<num_vars ?c1] ([], []) =
      Some ([''zero_1'', ''one_1'', ''a_1'', ''a_1''], [''zero_2'', ''one_2'', ''a_2'', ''a_2''])"
    by code_simp
  have i: "2 < num_vars ?c1" and j: "3 < num_vars ?c1"
    by (simp_all add: ex_circuit_def)
  have r1: "real_variable_index ?c1 ! 2 = real_variable_index ?c1 ! 3"
    and r2: "real_variable_index ?c2 ! 2 = real_variable_index ?c2 ! 3"
    by (simp_all add: ex_circuit_def)
  from canonical_values_equal [OF ct i j, of ex_solver "\<lambda>t. t"] r1 r2
  have "umap_index (model_terms ex_solver [''zero_1'', ''one_1'', ''a_1'', ''a_1''])
       ([''zero_1'', ''one_1'', ''a_1'', ''a_1''] ! 2) =
     umap_index (model_terms ex_solver [''zero_1'', ''one_1'', ''a_1'', ''a_1''])
       ([''zero_1'', ''one_1'', ''a_1'', ''a_1''] ! 3)"
    and "umap_index (model_terms ex_solver [''zero_2'', ''one_2'', ''a_2'', ''a_2''])
       ([''zero_2'', ''one_2'', ''a_2'', ''a_2''] ! 2) =
     umap_index (model_terms ex_solver [''zero_2'', ''one_2'', ''a_2'', ''a_2''])
       ([''zero_2'', ''one_2'', ''a_2'', ''a_2''] ! 3)"
    by blast+
  with ct i j r1 r2 show ?thesis
    by (intro conjI)
qed

subsection \<open>Determinism\<close>

text \<open>
  Claim C10. The result of a dump (the file and the \<open>info\<close> lines) is a function of
  the arguments, and it depends on the solver only through the value maps that
  \<open>model\<close> returns for the terms the dump asks about: two solvers that return equal
  maps there give the same file and the same \<open>info\<close> lines, for the same circuits.
\<close>

theorem dump_deterministic:
  assumes "model_terms s (canonical_terms c1 [0..<num_vars c1]) =
           model_terms s' (canonical_terms c1 [0..<num_vars c1])"
    and "model_terms s (canonical_terms c2 [0..<num_vars c1]) =
         model_terms s' (canonical_terms c2 [0..<num_vars c1])"
    and "model_named s (special_terms special c1 c2) =
         model_named s' (special_terms special c1 c2)"
    and "model_terms s (take (num_vars c) (symbolic_vars c)) =
         model_terms s' (take (num_vars c) (symbolic_vars c))"
    and "model_named s (special_terms_single special c) =
         model_named s' (special_terms_single special c)"
  shows "default_model toString special c1 c2 s fname =
           default_model toString special c1 c2 s' fname \<and>
         default_model_single toString special c s fname =
           default_model_single toString special c s' fname"
proof
  show "default_model toString special c1 c2 s fname = default_model toString special c1 c2 s' fname"
  proof (cases "dump_defined c1 c2")
    case True
    have "pair_line toString c1 c2 s = pair_line toString c1 c2 s'"
      by (rule ext) (simp add: pair_line_def assms(1,2))
    with True show ?thesis
      by (simp add: default_model_closed assms(3))
  next
    case False
    then show ?thesis
      using default_model_None_iff [of toString special c1 c2 s fname]
        default_model_None_iff [of toString special c1 c2 s' fname] by simp
  qed
  show "default_model_single toString special c s fname =
      default_model_single toString special c s' fname"
  proof (cases "dump_single_defined c")
    case True
    have "single_line toString c s = single_line toString c s'"
      by (rule ext) (simp add: single_line_def assms(4))
    with True show ?thesis
      by (simp add: default_model_single_closed assms(5))
  next
    case False
    then show ?thesis
      using default_model_single_None_iff [of toString special c s fname]
        default_model_single_None_iff [of toString special c s' fname] by simp
  qed
qed

theorem dump_deterministic_witness:
  "model_terms ex_solver [''a_1''] ''a_1'' \<noteq> model_terms ex_solver' [''a_1''] ''a_1'' \<and>
   model_terms ex_solver (canonical_terms (ex_circuit ''_1'') [0..<num_vars (ex_circuit ''_1'')]) =
     model_terms ex_solver' (canonical_terms (ex_circuit ''_1'') [0..<num_vars (ex_circuit ''_1'')]) \<and>
   model_terms ex_solver (canonical_terms (ex_circuit ''_2'') [0..<num_vars (ex_circuit ''_1'')]) =
     model_terms ex_solver' (canonical_terms (ex_circuit ''_2'') [0..<num_vars (ex_circuit ''_1'')]) \<and>
   model_named ex_solver (special_terms [''a''] (ex_circuit ''_1'') (ex_circuit ''_2'')) =
     model_named ex_solver' (special_terms [''a''] (ex_circuit ''_1'') (ex_circuit ''_2'')) \<and>
   model_terms ex_solver (take (num_vars (ex_circuit ''_1'')) (symbolic_vars (ex_circuit ''_1''))) =
     model_terms ex_solver'
       (take (num_vars (ex_circuit ''_1'')) (symbolic_vars (ex_circuit ''_1''))) \<and>
   model_named ex_solver (special_terms_single [''a''] (ex_circuit ''_1'')) =
     model_named ex_solver' (special_terms_single [''a''] (ex_circuit ''_1'')) \<and>
   default_model (\<lambda>t. t) [''a''] (ex_circuit ''_1'') (ex_circuit ''_2'') ex_solver ''witness.out'' =
     default_model (\<lambda>t. t) [''a''] (ex_circuit ''_1'') (ex_circuit ''_2'') ex_solver' ''witness.out'' \<and>
   default_model_single (\<lambda>t. t) [''a''] (ex_circuit ''_1'') ex_solver ''witness.out'' =
     default_model_single (\<lambda>t. t) [''a''] (ex_circuit ''_1'') ex_solver' ''witness.out''"
proof -
  let ?c1 = "ex_circuit ''_1''" and ?c2 = "ex_circuit ''_2''"
  have differ: "model_terms ex_solver [''a_1''] ''a_1'' \<noteq> model_terms ex_solver' [''a_1''] ''a_1''"
    by (simp add: ex_solver_def ex_solver'_def)
  have n: "num_vars ?c1 = 4"
    by (simp add: ex_circuit_def)
  have h1: "model_terms ex_solver (canonical_terms ?c1 [0..<num_vars ?c1]) =
      model_terms ex_solver' (canonical_terms ?c1 [0..<num_vars ?c1])"
    and h2: "model_terms ex_solver (canonical_terms ?c2 [0..<num_vars ?c1]) =
      model_terms ex_solver' (canonical_terms ?c2 [0..<num_vars ?c1])"
    by (simp_all add: n ex_solver'_def)
  have h3: "model_named ex_solver (special_terms [''a''] ?c1 ?c2) =
      model_named ex_solver' (special_terms [''a''] ?c1 ?c2)"
    and h5: "model_named ex_solver (special_terms_single [''a''] ?c1) =
      model_named ex_solver' (special_terms_single [''a''] ?c1)"
    by (simp_all add: ex_solver_def ex_solver'_def)
  have h4: "model_terms ex_solver (take (num_vars ?c1) (symbolic_vars ?c1)) =
      model_terms ex_solver' (take (num_vars ?c1) (symbolic_vars ?c1))"
    by (simp add: ex_solver'_def ex_circuit_def)
  from dump_deterministic [OF h1 h2 h3 h4 h5, of "\<lambda>t. t" "''witness.out''"]
    differ h1 h2 h3 h4 h5
  show ?thesis
    by (intro conjI) simp_all
qed

section \<open>Properties of the lookup binding\<close>

text \<open>
  Claim C5. With the columns bound by \<open>lookup_bytecode_to_read_unary_lookup_settings\<close>,
  the lookup constraint says: every tuple (\<open>bc_decomposition_bytes_to_read\<close>,
  \<open>bc_decomposition_bytes_to_read_unary\<close>) of a row selected by
  \<open>bc_decomposition_sel\<close> is the tuple (\<open>precomputed_clk\<close>, \<open>precomputed_as_unary\<close>)
  of a row selected by \<open>precomputed_sel_unary\<close>.
\<close>

theorem lookup_bytecode_to_read_unary_enforces:
  "lookup_relation_holds lookup_bytecode_to_read_unary_lookup_settings rows \<longleftrightarrow>
     (\<forall>r\<in>set rows. bc_decomposition_sel r = 1 \<longrightarrow>
        (\<exists>t\<in>set rows. precomputed_sel_unary t = 1 \<and>
           (precomputed_clk t, precomputed_as_unary t) =
           (bc_decomposition_bytes_to_read r, bc_decomposition_bytes_to_read_unary r)))"
  by (simp add: lookup_relation_holds_def lookup_bytecode_to_read_unary_lookup_settings_def
        list_all_iff list_ex_iff)

theorem lookup_bytecode_to_read_unary_enforces_witness:
  "lookup_relation_holds lookup_bytecode_to_read_unary_lookup_settings
     [ex_row 1 2 3 0 0, ex_row 0 0 0 1 1, ex_row 1 1 1 2 3] \<and>
   \<not> lookup_relation_holds lookup_bytecode_to_read_unary_lookup_settings
     [ex_row 1 2 2 0 0, ex_row 0 0 0 1 1, ex_row 0 0 0 2 3]"
proof -
  have "lookup_relation_holds lookup_bytecode_to_read_unary_lookup_settings
      [ex_row 1 2 3 0 0, ex_row 0 0 0 1 1, ex_row 1 1 1 2 3]"
    unfolding lookup_bytecode_to_read_unary_enforces by (simp add: ex_row_def)
  moreover have "\<not> lookup_relation_holds lookup_bytecode_to_read_unary_lookup_settings
      [ex_row 1 2 2 0 0, ex_row 0 0 0 1 1, ex_row 0 0 0 2 3]"
    unfolding lookup_bytecode_to_read_unary_enforces by (simp add: ex_row_def)
  ultimately show ?thesis ..
qed

text \<open>
  Claim C6. Every member name other than \<open>NAME\<close> resolves, in
  \<open>lookup_bytecode_to_read_unary_relation\<close>, to the member of
  \<open>GenericLookupRelation\<close> instantiated with
  \<open>lookup_bytecode_to_read_unary_lookup_settings\<close>; \<open>NAME\<close> is the one declaration of
  the class itself, the constant \<open>LOOKUP_BYTECODE_TO_READ_UNARY\<close>. So whatever the
  template evaluates, the relation evaluates the same.
\<close>

theorem relation_is_generic_template:
  "(name \<noteq> ''NAME'' \<longrightarrow>
      lookup_bytecode_to_read_unary_relation GenericLookupRelation name =
        map_option Template_member
          (GenericLookupRelation lookup_bytecode_to_read_unary_lookup_settings name)) \<and>
   lookup_bytecode_to_read_unary_relation GenericLookupRelation ''NAME'' =
     Some (String_view ''LOOKUP_BYTECODE_TO_READ_UNARY'') \<and>
   dom (lookup_bytecode_to_read_unary_relation_members :: string \<rightharpoonup> 'm member) = {''NAME''}"
  by (simp add: lookup_bytecode_to_read_unary_relation_def class_lookup_def
        lookup_bytecode_to_read_unary_relation_members_def)

theorem relation_is_generic_template_witness:
  "''compute_inverse_exists'' \<noteq> ''NAME'' \<and>
   lookup_bytecode_to_read_unary_relation ex_generic ''compute_inverse_exists'' =
     Some (Template_member
       (compute_inverse_exists lookup_bytecode_to_read_unary_lookup_settings))"
proof -
  have n: "''compute_inverse_exists'' \<noteq> ''NAME''"
    by simp
  from relation_is_generic_template [of "''compute_inverse_exists''" ex_generic] n
  have "lookup_bytecode_to_read_unary_relation ex_generic ''compute_inverse_exists'' =
      map_option Template_member
        (ex_generic lookup_bytecode_to_read_unary_lookup_settings ''compute_inverse_exists'')"
    by blast
  also have "ex_generic lookup_bytecode_to_read_unary_lookup_settings ''compute_inverse_exists'' =
      Some (compute_inverse_exists lookup_bytecode_to_read_unary_lookup_settings)"
    by (simp add: ex_generic_def)
  finally show ?thesis
    using n by simp
qed

text \<open>
  Claim C7. For selectors in \<open>{0, 1}\<close>, \<open>compute_inverse_exists\<close> returns
  \<open>is_operation + is_table_entry - is_operation * is_table_entry\<close>, the result is 0
  or 1, and it is 1 exactly when \<open>inverse_polynomial_is_computed_at_row\<close> holds,
  which is when one of the two selectors is 1. The field is any commutative ring
  with 1.
\<close>

theorem compute_inverse_exists_or:
  fixes in' :: "('a::comm_ring_1) AllEntities"
  assumes "bc_decomposition_sel in' \<in> {0, 1}" and "precomputed_sel_unary in' \<in> {0, 1}"
  shows "compute_inverse_exists lookup_bytecode_to_read_unary_lookup_settings in' =
           bc_decomposition_sel in' + precomputed_sel_unary in' -
           bc_decomposition_sel in' * precomputed_sel_unary in' \<and>
         compute_inverse_exists lookup_bytecode_to_read_unary_lookup_settings in' \<in> {0, 1} \<and>
         (compute_inverse_exists lookup_bytecode_to_read_unary_lookup_settings in' = 1 \<longleftrightarrow>
            inverse_polynomial_is_computed_at_row lookup_bytecode_to_read_unary_lookup_settings in') \<and>
         (inverse_polynomial_is_computed_at_row lookup_bytecode_to_read_unary_lookup_settings in' \<longleftrightarrow>
            bc_decomposition_sel in' = 1 \<or> precomputed_sel_unary in' = 1)"
  using assms
  by (auto simp: lookup_bytecode_to_read_unary_lookup_settings_def Let_def
        lookup_bytecode_to_read_unary_compute_inverse_exists_def
        lookup_bytecode_to_read_unary_inverse_polynomial_is_computed_at_row_def)

theorem compute_inverse_exists_or_witness:
  "bc_decomposition_sel (ex_row 1 2 3 0 0) \<in> {0, 1} \<and>
   precomputed_sel_unary (ex_row 1 2 3 0 0) \<in> {0, 1} \<and>
   compute_inverse_exists lookup_bytecode_to_read_unary_lookup_settings (ex_row 1 2 3 0 0) = 1 \<and>
   inverse_polynomial_is_computed_at_row lookup_bytecode_to_read_unary_lookup_settings
     (ex_row 1 2 3 0 0)"
proof -
  have a: "bc_decomposition_sel (ex_row 1 2 3 0 0) \<in> {0, 1}"
    and b: "precomputed_sel_unary (ex_row 1 2 3 0 0) \<in> {0, 1}"
    by (simp_all add: ex_row_def)
  have v: "bc_decomposition_sel (ex_row 1 2 3 0 0) + precomputed_sel_unary (ex_row 1 2 3 0 0) -
      bc_decomposition_sel (ex_row 1 2 3 0 0) * precomputed_sel_unary (ex_row 1 2 3 0 0) = 1"
    by (simp add: ex_row_def)
  note t = compute_inverse_exists_or [OF a b]
  from t v have e: "compute_inverse_exists lookup_bytecode_to_read_unary_lookup_settings
      (ex_row 1 2 3 0 0) = 1"
    by (simp only:)
  with t have "inverse_polynomial_is_computed_at_row lookup_bytecode_to_read_unary_lookup_settings
      (ex_row 1 2 3 0 0)"
    by blast
  with a b e show ?thesis
    by (intro conjI)
qed

text \<open>
  Claim C8. The three accessors return the same tuple; it holds, in this order, the
  members named by \<open>INVERSES\<close>, \<open>COUNTS\<close>, \<open>SRC_SELECTOR\<close>, \<open>DST_SELECTOR\<close>,
  the two \<open>SRC_COLUMNS\<close> and the two \<open>DST_COLUMNS\<close>; its length is 8, which is
  \<open>4 + 2 * LOOKUP_TUPLE_SIZE\<close>.
\<close>

theorem get_entities_agree:
  "get_const_entities lookup_bytecode_to_read_unary_lookup_settings in' =
     get_entities lookup_bytecode_to_read_unary_lookup_settings in' \<and>
   get_nonconst_entities lookup_bytecode_to_read_unary_lookup_settings in' =
     get_entities lookup_bytecode_to_read_unary_lookup_settings in' \<and>
   get_entities lookup_bytecode_to_read_unary_lookup_settings in' =
     map (\<lambda>col. entity col in')
       ([INVERSES lookup_bytecode_to_read_unary_lookup_settings,
         COUNTS lookup_bytecode_to_read_unary_lookup_settings,
         SRC_SELECTOR lookup_bytecode_to_read_unary_lookup_settings,
         DST_SELECTOR lookup_bytecode_to_read_unary_lookup_settings] @
        SRC_COLUMNS lookup_bytecode_to_read_unary_lookup_settings @
        DST_COLUMNS lookup_bytecode_to_read_unary_lookup_settings) \<and>
   length (get_entities lookup_bytecode_to_read_unary_lookup_settings in') = 8 \<and>
   length (get_entities lookup_bytecode_to_read_unary_lookup_settings in') =
     4 + 2 * LOOKUP_TUPLE_SIZE lookup_bytecode_to_read_unary_lookup_settings"
  by (simp add: lookup_bytecode_to_read_unary_lookup_settings_def
        lookup_bytecode_to_read_unary_get_entities_def
        lookup_bytecode_to_read_unary_get_const_entities_def
        lookup_bytecode_to_read_unary_get_nonconst_entities_def)

section \<open>Properties of the tests\<close>

subsection \<open>Arithmetic modulo a prime\<close>

lemma prime_modulus_divisor:
  assumes "prime_modulus p" and "m dvd p"
  shows "m = 1 \<or> m = p"
proof -
  from assms(1) have p: "1 < p" and none: "\<forall>k. 2 \<le> k \<and> k < p \<longrightarrow> \<not> k dvd p"
    by (simp_all add: prime_modulus_def list_all_iff)
  from assms(2) p have le: "m \<le> p" by (simp add: dvd_imp_le)
  have nz: "m \<noteq> 0"
  proof
    assume "m = 0"
    with assms(2) have "p = 0" by simp
    with p show False by simp
  qed
  show ?thesis
  proof (rule ccontr)
    assume "\<not> (m = 1 \<or> m = p)"
    with le nz have "2 \<le> m \<and> m < p" by arith
    with none have "\<not> m dvd p" by blast
    with assms(2) show False by simp
  qed
qed

lemma prime_modulus_coprime:
  assumes "prime_modulus p" and "\<not> p dvd n"
  shows "coprime p n"
proof (rule coprimeI)
  fix c assume cp: "c dvd p" and cn: "c dvd n"
  from assms(1) cp have "c = 1 \<or> c = p" by (rule prime_modulus_divisor)
  moreover from cn assms(2) have "c \<noteq> p" by blast
  ultimately show "is_unit c" by simp
qed

lemma prime_modulus_dvd_mult:
  assumes "prime_modulus p" and "int p dvd u * v"
  shows "int p dvd u \<or> int p dvd v"
proof (cases "int p dvd u")
  case True
  then show ?thesis ..
next
  case False
  then have "\<not> p dvd nat \<bar>u\<bar>"
    by (simp only: dvd_nat_abs_iff not_False_eq_True)
  with assms(1) have cp: "coprime p (nat \<bar>u\<bar>)"
    by (rule prime_modulus_coprime)
  from assms(2) have "p dvd nat \<bar>u * v\<bar>"
    by (simp only: dvd_nat_abs_iff)
  then have "p dvd nat \<bar>u\<bar> * nat \<bar>v\<bar>"
    by (simp only: nat_abs_mult_distrib)
  with cp have "p dvd nat \<bar>v\<bar>"
    by (simp only: coprime_dvd_mult_right_iff)
  then have "int p dvd v"
    by (simp only: dvd_nat_abs_iff)
  then show ?thesis ..
qed

lemma prime_modulus_cancel:
  assumes "prime_modulus p"
    and "(x * d) mod int p = (y * d) mod int p"
    and "d mod int p \<noteq> 0"
  shows "x mod int p = y mod int p"
proof -
  from assms(2) have "int p dvd x * d - y * d"
    by (simp add: mod_eq_dvd_iff)
  then have "int p dvd (x - y) * d"
    by (simp add: algebra_simps)
  with assms(1) have "int p dvd x - y \<or> int p dvd d"
    by (rule prime_modulus_dvd_mult)
  moreover from assms(3) have "\<not> int p dvd d"
    by (simp add: dvd_eq_mod_eq_0)
  ultimately have "int p dvd x - y" by simp
  then show ?thesis by (simp add: mod_eq_dvd_iff)
qed

lemma eval_const_0: "eval_term p env (Const 0) = 0"
  by simp

lemma eval_b_b_b:
  "eval_term p env (Add (Add (Var b) (Var b)) (Var b)) = (3 * env b) mod int p"
  by (simp add: mod_simps)

lemma eval_2b_b:
  "eval_term p env (Add (Mul (Const 2) (Var b)) (Var b)) = (3 * env b) mod int p"
  by (simp add: mod_simps)

lemma eval_a_a: "eval_term p env (Add (Var a) (Var a)) = (2 * env a) mod int p"
  by (simp add: mod_simps)

lemma eval_2a: "eval_term p env (Mul (Const 2) (Var a)) = (2 * env a) mod int p"
  by (simp add: mod_simps)

lemma eval_c_b_b_b:
  "eval_term p env (Mul (Var c) (Add (Add (Var b) (Var b)) (Var b))) =
     (env c * (3 * env b)) mod int p"
  by (simp add: mod_simps)

lemma eval_r_2b_b:
  "eval_term p env (Mul (Var r) (Add (Mul (Const 2) (Var b)) (Var b))) =
     (env r * (3 * env b)) mod int p"
  by (simp add: mod_simps)

lemma eval_r_3_b:
  "eval_term p env (Mul (Mul (Var r) (Const 3)) (Var b)) = (env r * (3 * env b)) mod int p"
  by (simp add: mod_simps mult.assoc)

subsection \<open>The outcomes of the solver\<close>

text \<open>
  Claim C3. For the circuit \<open>c = (a + a) / (b + b + b)\<close>, with \<open>cr\<close> the quotient
  \<open>(2 * a1) / (2 * b1 + b1)\<close>, or with \<open>cr * 3 * b1 == 2 * a1\<close>, and with
  \<open>c1 != cr\<close>, \<open>check\<close> returns false: no witness makes the circuit disagree
  with the identity. The modulus is a prime.
\<close>

theorem circuit_agrees_with_identity:
  assumes "prime_modulus modulus"
  shows "\<not> expressionTrue modulus \<and> \<not> multiplicationTrueKind modulus"
proof
  let ?p = "int modulus"
  show "\<not> expressionTrue modulus"
  proof
    assume "expressionTrue modulus"
    then obtain env where sat: "list_all (holds modulus env) expressionTrue_assertions"
      unfolding expressionTrue_def check_def by blast
    from sat have
      h1: "eval_term modulus env (Add (Add (Var ''b'') (Var ''b'')) (Var ''b'')) \<noteq>
           eval_term modulus env (Const 0)" and
      h2: "eval_term modulus env (Mul (Var ''c'') (Add (Add (Var ''b'') (Var ''b'')) (Var ''b''))) =
           eval_term modulus env (Add (Var ''a'') (Var ''a''))" and
      h3: "eval_term modulus env
             (Mul (Var ''cr_div'') (Add (Mul (Const 2) (Var ''b'')) (Var ''b''))) =
           eval_term modulus env (Mul (Const 2) (Var ''a''))" and
      h4: "eval_term modulus env (Var ''c'') \<noteq> eval_term modulus env (Var ''cr_div'')"
      by (simp_all add: expressionTrue_assertions_def Let_def ff_div_def field_div_circuit_def
            del: eval_term.simps)
    from h1 have nz: "(3 * env ''b'') mod ?p \<noteq> 0"
      unfolding eval_b_b_b eval_const_0 .
    from h2 h3 have "(env ''c'' * (3 * env ''b'')) mod ?p = (env ''cr_div'' * (3 * env ''b'')) mod ?p"
      unfolding eval_c_b_b_b eval_a_a eval_r_2b_b eval_2a by simp
    with assms have "env ''c'' mod ?p = env ''cr_div'' mod ?p"
      using nz by (rule prime_modulus_cancel)
    with h4 show False by simp
  qed
  show "\<not> multiplicationTrueKind modulus"
  proof
    assume "multiplicationTrueKind modulus"
    then obtain env where sat: "list_all (holds modulus env) multiplicationTrueKind_assertions"
      unfolding multiplicationTrueKind_def check_def by blast
    from sat have
      h1: "eval_term modulus env (Add (Add (Var ''b'') (Var ''b'')) (Var ''b'')) \<noteq>
           eval_term modulus env (Const 0)" and
      h2: "eval_term modulus env (Mul (Var ''c'') (Add (Add (Var ''b'') (Var ''b'')) (Var ''b''))) =
           eval_term modulus env (Add (Var ''a'') (Var ''a''))" and
      h3: "eval_term modulus env (Mul (Mul (Var ''cr'') (Const 3)) (Var ''b'')) =
           eval_term modulus env (Mul (Const 2) (Var ''a''))" and
      h4: "eval_term modulus env (Var ''c'') \<noteq> eval_term modulus env (Var ''cr'')"
      by (simp_all add: multiplicationTrueKind_assertions_def Let_def field_div_circuit_def
            del: eval_term.simps)
    from h1 have nz: "(3 * env ''b'') mod ?p \<noteq> 0"
      unfolding eval_b_b_b eval_const_0 .
    from h2 h3 have "(env ''c'' * (3 * env ''b'')) mod ?p = (env ''cr'' * (3 * env ''b'')) mod ?p"
      unfolding eval_c_b_b_b eval_a_a eval_r_3_b eval_2a by simp
    with assms have "env ''c'' mod ?p = env ''cr'' mod ?p"
      using nz by (rule prime_modulus_cancel)
    with h4 show False by simp
  qed
qed

theorem circuit_agrees_with_identity_witness:
  "prime_modulus 7 \<and> \<not> expressionTrue 7 \<and> \<not> multiplicationTrueKind 7"
proof -
  have p: "prime_modulus 7"
    by code_simp
  from circuit_agrees_with_identity [OF p] p show ?thesis
    by simp
qed

text \<open>
  Claim C4. For the circuit \<open>c = a / (b + b + b)\<close>, with \<open>cr\<close> the quotient
  \<open>(2 * a1) / (3 * b1)\<close> and with \<open>c1 != cr\<close>, \<open>check\<close> returns true for every
  modulus above 3: the assignment \<open>multiplicationFalse_model\<close> satisfies everything
  recorded, it gives values to \<open>a\<close>, \<open>b\<close>, \<open>c\<close> and \<open>cr\<close>, and in it \<open>c\<close>
  differs from \<open>cr\<close>.
\<close>

theorem mistaken_circuit_is_found:
  assumes "3 < modulus"
  shows "multiplicationFalse modulus \<and>
         list_all (holds modulus multiplicationFalse_model) multiplicationFalse_assertions \<and>
         eval_term modulus multiplicationFalse_model (Var ''c'') \<noteq>
         eval_term modulus multiplicationFalse_model (Var ''cr_div'')"
proof -
  let ?p = "int modulus"
  from assms have m: "1 mod ?p = 1" "2 mod ?p = 2" "3 mod ?p = 3"
    by simp_all
  have sat: "list_all (holds modulus multiplicationFalse_model) multiplicationFalse_assertions"
    by (simp add: multiplicationFalse_assertions_def ff_div_def field_div_circuit_def
          multiplicationFalse_model_def Let_def m mod_simps)
  then have "multiplicationFalse modulus"
    unfolding multiplicationFalse_def check_def by blast
  moreover have "eval_term modulus multiplicationFalse_model (Var ''c'') \<noteq>
      eval_term modulus multiplicationFalse_model (Var ''cr_div'')"
    by (simp add: multiplicationFalse_model_def m)
  ultimately show ?thesis using sat by simp
qed

theorem mistaken_circuit_is_found_witness:
  "(3::nat) < 7 \<and> multiplicationFalse 7 \<and>
   map (eval_term 7 multiplicationFalse_model) [Var ''a'', Var ''b'', Var ''c'', Var ''cr_div''] =
     [3, 1, 1, 2]"
proof -
  have m: "(3::nat) < 7" by simp
  have v: "map (eval_term 7 multiplicationFalse_model)
      [Var ''a'', Var ''b'', Var ''c'', Var ''cr_div''] = [3, 1, 1, 2]"
    by (simp add: multiplicationFalse_model_def)
  from mistaken_circuit_is_found [OF m] m v show ?thesis
    by simp
qed

end
